theory Spec2Isabelle
  imports Main "HOL-Library.AList"
begin

section \<open>The dashboard client of NEXUS-DASH (src/websocket\_client.py)\<close>

text \<open>
  The class \<open>WebSocketDashboardClient\<close> is embedded as a record of its attributes and
  one function per method, each taking the client and returning the updated client.
  A leading underscore of a method name is dropped (\<open>_send_raw_message\<close> is
  \<open>send_raw_message\<close>). What a method gets from outside the class is an argument of its
  model: the reading of the clock, the outcome of a write to the socket, the result of
  opening a connection, and the library functions \<open>json.dumps\<close>, \<open>gzip.compress\<close> and
  \<open>base64.b64encode\<close>. Numbers are integers: Python's unbounded \<open>int\<close>, and durations
  in whole seconds.
\<close>

subsection \<open>Data\<close>

text \<open>Structured values: the payloads the client is given and the frames it parses.\<close>

datatype json =
    JNull
  | JBool bool
  | JInt int
  | JString string
  | JList "json list"
  | JDict "(string \<times> json) list"

text \<open>
  \<open>DashboardMessage\<close>, the envelope. Its fields carry the prefix \<open>msg_\<close>, since the
  client has attributes \<open>system_id\<close> and \<open>sequence_id\<close> of its own. The default of
  \<open>sequence_id\<close> in the dataclass is 0.
\<close>

record DashboardMessage =
  msg_type :: string
  msg_timestamp :: string
  msg_data :: json
  msg_system_id :: string
  msg_sequence_id :: int

text \<open>\<open>dataclasses.asdict\<close> on an envelope.\<close>

definition asdict :: "DashboardMessage \<Rightarrow> json" where
  "asdict m = JDict
     [(''message_type'', JString (msg_type m)),
      (''timestamp'', JString (msg_timestamp m)),
      (''data'', msg_data m),
      (''system_id'', JString (msg_system_id m)),
      (''sequence_id'', JInt (msg_sequence_id m))]"

text \<open>
  The dictionary \<open>self.stats\<close>. \<open>__init__\<close> stores six keys; \<open>send_heartbeat\<close> also
  reads a key \<open>start_time\<close>, which \<open>__init__\<close> does not store and no method writes:
  the field \<open>start_time\<close> is \<open>None\<close> where the key is absent.
\<close>

record stats =
  messages_sent :: int
  messages_failed :: int
  bytes_sent :: int
  connection_uptime :: int
  last_heartbeat :: "string option"
  reconnections :: int
  start_time :: "int option"

text \<open>
  An \<open>asyncio\<close> task as the client sees it: created and scheduled, asked to cancel
  (\<open>Task.cancel()\<close> only requests it: the task ends when the event loop next runs it),
  or finished.
\<close>

datatype task = Scheduled | CancelRequested | Finished


text \<open>
  The client. \<open>websocket\<close> is the handle of the open connection, a number here.
  \<open>connection_task\<close> is the task \<open>start\<close> creates for \<open>_connection_manager\<close>: the
  source keeps it in a local variable of \<open>start\<close>, so only the event loop refers to it.
\<close>

record client =
  config :: "(string \<times> json) list"
  websocket :: "nat option"
  is_connected :: bool
  is_running :: bool
  reconnect_attempts :: nat
  max_reconnect_attempts :: int
  reconnect_delay :: int
  max_reconnect_delay :: int
  sequence_id :: int
  dashboard_url :: string
  api_key :: string
  system_id :: string
  compress_data :: bool
  batch_size :: int
  send_interval :: int
  message_queue :: "DashboardMessage list"
  send_task :: "task option"
  heartbeat_task :: "task option"
  connection_task :: "task option"
  stats :: stats

text \<open>
  The library: \<open>dumps\<close> is \<open>json.dumps(_, default=str)\<close>, and \<open>gzip_b64\<close> is the text
  \<open>base64.b64encode(gzip.compress(s.encode('utf-8'))).decode('utf-8')\<close> of a text \<open>s\<close>.
\<close>

record codec =
  dumps :: "json \<Rightarrow> string"
  gzip_b64 :: "string \<Rightarrow> string"

text \<open>
  The outcome of the \<open>try\<close> block of \<open>_send_raw_message\<close>: the frame is written by
  \<open>websocket.send\<close>, or an exception is raised in it.
\<close>

datatype transport = Delivers | Raises

datatype error = KeyError | AttributeError | ConnectError

subsection \<open>Construction\<close>

definition get_int :: "(string \<times> json) list \<Rightarrow> string \<Rightarrow> int \<Rightarrow> int" where
  "get_int cfg k d = (case map_of cfg k of Some (JInt n) \<Rightarrow> n | _ \<Rightarrow> d)"

definition get_bool :: "(string \<times> json) list \<Rightarrow> string \<Rightarrow> bool \<Rightarrow> bool" where
  "get_bool cfg k d = (case map_of cfg k of Some (JBool b) \<Rightarrow> b | _ \<Rightarrow> d)"

definition get_str :: "(string \<times> json) list \<Rightarrow> string \<Rightarrow> string \<Rightarrow> string" where
  "get_str cfg k d = (case map_of cfg k of Some (JString s) \<Rightarrow> s | _ \<Rightarrow> d)"

text \<open>
  \<open>__init__\<close>. \<open>config['dashboard_url']\<close> raises \<open>KeyError\<close> when the key is absent;
  every other setting is read with \<open>config.get\<close> and a default. A setting is taken
  when its value has the type of the attribute (a value of another type is outside
  this model, and the default stands in).
\<close>

definition init_stats :: stats where
  "init_stats = \<lparr>messages_sent = 0, messages_failed = 0, bytes_sent = 0,
     connection_uptime = 0, last_heartbeat = None, reconnections = 0,
     start_time = None\<rparr>"

definition init :: "(string \<times> json) list \<Rightarrow> error + client" where
  "init cfg =
     (case map_of cfg ''dashboard_url'' of
        Some (JString url) \<Rightarrow> Inr
          \<lparr>config = cfg,
           websocket = None,
           is_connected = False,
           is_running = False,
           reconnect_attempts = 0,
           max_reconnect_attempts = get_int cfg ''max_reconnect_attempts'' 10,
           reconnect_delay = get_int cfg ''reconnect_delay'' 5,
           max_reconnect_delay = get_int cfg ''max_reconnect_delay'' 300,
           sequence_id = 0,
           dashboard_url = url,
           api_key = get_str cfg ''api_key'' [],
           system_id = get_str cfg ''system_id'' ''nexus_ai_local'',
           compress_data = get_bool cfg ''compress_data'' True,
           batch_size = get_int cfg ''batch_size'' 10,
           send_interval = get_int cfg ''send_interval'' 2,
           message_queue = [],
           send_task = None,
           heartbeat_task = None,
           connection_task = None,
           stats = init_stats\<rparr>
      | _ \<Rightarrow> Inl KeyError)"

text \<open>The client \<open>__init__\<close> builds from a configuration holding the address only.\<close>

definition new_client :: client where
  "new_client = (case init [(''dashboard_url'', JString ''ws://localhost:8080/ws/trading'')] of
                   Inr s \<Rightarrow> s)"

subsection \<open>Writing to the socket\<close>

text \<open>
  \<open>_send_raw_message\<close>. The text written is \<open>json.dumps\<close> of the envelope's dictionary,
  or, when \<open>compress_data\<close> is set, \<open>json.dumps\<close> of the marker object around the
  compressed text. \<open>wire_object\<close> is the object whose text goes on the wire, and
  \<open>final_message\<close> that text.
\<close>

definition wire_object :: "codec \<Rightarrow> client \<Rightarrow> DashboardMessage \<Rightarrow> json" where
  "wire_object c s message =
     (let message_json = dumps c (asdict message)
      in if compress_data s
         then JDict [(''compressed'', JBool True), (''data'', JString (gzip_b64 c message_json))]
         else asdict message)"

definition final_message :: "codec \<Rightarrow> client \<Rightarrow> DashboardMessage \<Rightarrow> string" where
  "final_message c s message = dumps c (wire_object c s message)"

text \<open>
  The result is the returned boolean, the client, and the frames written to the socket
  (none or one).
\<close>

definition send_raw_message ::
  "codec \<Rightarrow> transport \<Rightarrow> client \<Rightarrow> DashboardMessage \<Rightarrow> bool \<times> client \<times> string list" where
  "send_raw_message c tr s message =
     (if \<not> is_connected s \<or> websocket s = None then (False, s, [])
      else case tr of
        Delivers \<Rightarrow>
          (let frame = final_message c s message;
               st = stats s;
               st1 = st\<lparr>messages_sent := messages_sent st + 1\<rparr>;
               st2 = st1\<lparr>bytes_sent := bytes_sent st1 + int (length frame)\<rparr>
           in (True, s\<lparr>stats := st2\<rparr>, [frame]))
      | Raises \<Rightarrow>
          (let st = stats s;
               s1 = s\<lparr>stats := st\<lparr>messages_failed := messages_failed st + 1\<rparr>\<rparr>
           in (False, s1\<lparr>is_connected := False\<rparr>, [])))"

text \<open>\<open>_get_next_sequence_id\<close>: the counter is stepped, and the new value returned.\<close>

definition get_next_sequence_id :: "client \<Rightarrow> int \<times> client" where
  "get_next_sequence_id s =
     (let s1 = s\<lparr>sequence_id := sequence_id s + 1\<rparr> in (sequence_id s1, s1))"

subsection \<open>The public senders\<close>

text \<open>
  Each sender builds an envelope with the next sequence id and puts it on the queue.
  The argument \<open>now\<close> is \<open>datetime.now().isoformat()\<close>. The function with the suffix
  \<open>_message\<close> is the statement that builds the envelope; it returns the envelope with
  the client, whose counter has moved.
\<close>

definition queued_message :: "string \<Rightarrow> string \<Rightarrow> json \<Rightarrow> client \<Rightarrow> DashboardMessage \<times> client" where
  "queued_message ty now d s =
     (let (sid, s1) = get_next_sequence_id s
      in (\<lparr>msg_type = ty, msg_timestamp = now, msg_data = d,
           msg_system_id = system_id s, msg_sequence_id = sid\<rparr>, s1))"

definition put :: "DashboardMessage \<Rightarrow> client \<Rightarrow> client" where
  "put message s = s\<lparr>message_queue := message_queue s @ [message]\<rparr>"

definition send_portfolio_data :: "string \<Rightarrow> json \<Rightarrow> client \<Rightarrow> client" where
  "send_portfolio_data now portfolio_data s =
     (let (message, s1) = queued_message ''portfolio_update'' now portfolio_data s
      in put message s1)"

definition send_trade_signal :: "string \<Rightarrow> json \<Rightarrow> client \<Rightarrow> client" where
  "send_trade_signal now signal_data s =
     (let (message, s1) = queued_message ''trade_signal'' now signal_data s
      in put message s1)"

definition send_risk_alert :: "string \<Rightarrow> json \<Rightarrow> client \<Rightarrow> client" where
  "send_risk_alert now risk_data s =
     (let (message, s1) = queued_message ''risk_alert'' now risk_data s
      in put message s1)"

text \<open>
  \<open>send_system_status\<close> puts the dictionaries \<open>stats\<close> and \<open>config\<close> in the payload;
  the payload here holds their content at the call.
\<close>

definition stats_json :: "stats \<Rightarrow> json" where
  "stats_json st = JDict
    ([(''messages_sent'', JInt (messages_sent st)),
      (''messages_failed'', JInt (messages_failed st)),
      (''bytes_sent'', JInt (bytes_sent st)),
      (''connection_uptime'', JInt (connection_uptime st)),
      (''last_heartbeat'', (case last_heartbeat st of None \<Rightarrow> JNull | Some t \<Rightarrow> JString t)),
      (''reconnections'', JInt (reconnections st))]
     @ (case start_time st of None \<Rightarrow> [] | Some t \<Rightarrow> [(''start_time'', JInt t)]))"

definition status_data :: "client \<Rightarrow> json" where
  "status_data s = JDict
     [(''status'', JString (if is_running s then ''running'' else ''stopped'')),
      (''connection'', JString (if is_connected s then ''connected'' else ''disconnected'')),
      (''stats'', stats_json (stats s)),
      (''config'', JDict (config s))]"

definition send_system_status :: "string \<Rightarrow> client \<Rightarrow> client" where
  "send_system_status now s =
     (let (message, s1) = queued_message ''system_status'' now (status_data s) s
      in put message s1)"

subsection \<open>Batches and the send worker\<close>

text \<open>\<open>_send_batch\<close>: the batch envelope takes the next sequence id, then is written.\<close>

definition batch_message :: "string \<Rightarrow> DashboardMessage list \<Rightarrow> client \<Rightarrow> DashboardMessage \<times> client" where
  "batch_message now messages s =
     queued_message ''batch'' now (JDict [(''messages'', JList (map asdict messages))]) s"

definition send_batch ::
  "codec \<Rightarrow> transport \<Rightarrow> string \<Rightarrow> DashboardMessage list \<Rightarrow> client \<Rightarrow> bool \<times> client \<times> string list" where
  "send_batch c tr now messages s =
     (let (message, s1) = batch_message now messages s
      in send_raw_message c tr s1 message)"

text \<open>
  The inner loop of \<open>_send_worker\<close>: \<open>for _ in range(batch_size)\<close>, leaving at
  \<open>QueueEmpty\<close>. The first argument is the number of rounds left, then the queue and
  the messages collected so far; the result is the messages and the queue left.
\<close>

fun collect :: "nat \<Rightarrow> DashboardMessage list \<Rightarrow> DashboardMessage list
    \<Rightarrow> DashboardMessage list \<times> DashboardMessage list" where
  "collect 0 q messages = (messages, q)"
| "collect (Suc n) [] messages = (messages, [])"
| "collect (Suc n) (message # q) messages = collect n q (messages @ [message])"

text \<open>
  One round of the \<open>while\<close> loop of \<open>_send_worker\<close>, up to its sleep. The result is the
  client, the frames written and the seconds slept. \<open>range\<close> of a negative number is empty.
\<close>

definition send_worker_cycle ::
  "codec \<Rightarrow> transport \<Rightarrow> string \<Rightarrow> client \<Rightarrow> client \<times> string list \<times> int" where
  "send_worker_cycle c tr now s =
     (if is_connected s \<and> message_queue s \<noteq> [] then
        (let (messages, q) = collect (nat (batch_size s)) (message_queue s) [];
             s1 = s\<lparr>message_queue := q\<rparr>
         in if messages \<noteq> [] then
              (if length messages = 1 then
                 (let (ok, s2, frames) = send_raw_message c tr s1 (hd messages)
                  in (s2, frames, send_interval s2))
               else
                 (let (ok, s2, frames) = send_batch c tr now messages s1
                  in (s2, frames, send_interval s2)))
            else (s1, [], send_interval s1))
      else (s, [], send_interval s))"

subsection \<open>Heartbeat, handshake and pong\<close>

text \<open>
  \<open>send_heartbeat\<close>. \<open>t1\<close> and \<open>t2\<close> are the two readings of \<open>time.time()\<close> in
  \<open>time.time() - self.stats.get('start_time', time.time())\<close>, in the order Python
  evaluates them: the left operand, then the arguments of \<open>get\<close>. \<open>now1\<close> and \<open>now2\<close>
  are the two readings of \<open>datetime.now().isoformat()\<close>.
\<close>

definition heartbeat_data :: "string \<Rightarrow> int \<Rightarrow> int \<Rightarrow> client \<Rightarrow> json" where
  "heartbeat_data now1 t1 t2 s = JDict
     [(''timestamp'', JString now1),
      (''uptime'', JInt (t1 - (case start_time (stats s) of None \<Rightarrow> t2 | Some t0 \<Rightarrow> t0))),
      (''queue_size'', JInt (int (length (message_queue s))))]"

definition heartbeat_message ::
  "string \<Rightarrow> int \<Rightarrow> int \<Rightarrow> string \<Rightarrow> client \<Rightarrow> DashboardMessage \<times> client" where
  "heartbeat_message now1 t1 t2 now2 s =
     queued_message ''heartbeat'' now2 (heartbeat_data now1 t1 t2 s) s"

definition send_heartbeat ::
  "codec \<Rightarrow> transport \<Rightarrow> string \<Rightarrow> int \<Rightarrow> int \<Rightarrow> string \<Rightarrow> client \<Rightarrow> bool \<times> client \<times> string list" where
  "send_heartbeat c tr now1 t1 t2 now2 s =
     (let (message, s1) = heartbeat_message now1 t1 t2 now2 s
      in send_raw_message c tr s1 message)"

text \<open>
  One round of the loop of \<open>_heartbeat_worker\<close>, up to its sleep: the client, the frames
  written and the seconds slept. \<open>now3\<close> is the reading stored in \<open>last_heartbeat\<close>.
\<close>

definition heartbeat_worker_cycle ::
  "codec \<Rightarrow> transport \<Rightarrow> string \<Rightarrow> int \<Rightarrow> int \<Rightarrow> string \<Rightarrow> string \<Rightarrow> client
    \<Rightarrow> client \<times> string list \<times> int" where
  "heartbeat_worker_cycle c tr now1 t1 t2 now2 now3 s =
     (if is_connected s then
        (let (ok, s1, frames) = send_heartbeat c tr now1 t1 t2 now2 s
         in (s1\<lparr>stats := (stats s1)\<lparr>last_heartbeat := Some now3\<rparr>\<rparr>, frames, 30))
      else (s, [], 30))"

text \<open>\<open>_send_handshake\<close> and \<open>_send_pong\<close>: the envelope keeps the default sequence id 0.\<close>

definition handshake_data :: "string \<Rightarrow> client \<Rightarrow> json" where
  "handshake_data now1 s = JDict
     [(''system_info'', JDict
        [(''system_id'', JString (system_id s)),
         (''version'', JString ''1.0.0''),
         (''timestamp'', JString now1),
         (''capabilities'', JList [JString ''real_time_data'', JString ''compressed_data'',
                                  JString ''batch_updates''])]),
      (''config'', JDict
        [(''send_interval'', JInt (send_interval s)),
         (''batch_size'', JInt (batch_size s)),
         (''compression'', JBool (compress_data s))])]"

definition handshake_message :: "string \<Rightarrow> string \<Rightarrow> client \<Rightarrow> DashboardMessage" where
  "handshake_message now1 now2 s =
     \<lparr>msg_type = ''handshake'', msg_timestamp = now2, msg_data = handshake_data now1 s,
      msg_system_id = system_id s, msg_sequence_id = 0\<rparr>"

definition send_handshake ::
  "codec \<Rightarrow> transport \<Rightarrow> string \<Rightarrow> string \<Rightarrow> client \<Rightarrow> client \<times> string list" where
  "send_handshake c tr now1 now2 s =
     (let (ok, s1, frames) = send_raw_message c tr s (handshake_message now1 now2 s)
      in (s1, frames))"

definition pong_message :: "string \<Rightarrow> client \<Rightarrow> DashboardMessage" where
  "pong_message now s =
     \<lparr>msg_type = ''pong'', msg_timestamp = now, msg_data = JDict [(''status'', JString ''ok'')],
      msg_system_id = system_id s, msg_sequence_id = 0\<rparr>"

definition send_pong :: "codec \<Rightarrow> transport \<Rightarrow> string \<Rightarrow> client \<Rightarrow> client \<times> string list" where
  "send_pong c tr now s =
     (let (ok, s1, frames) = send_raw_message c tr s (pong_message now s)
      in (s1, frames))"

subsection \<open>Connection and reconnection\<close>

text \<open>
  \<open>_connect\<close>. \<open>opened\<close> is the result of \<open>websockets.connect\<close>: a handle, or \<open>None\<close>
  when it raises. On a failure the client is marked disconnected and the exception is
  raised again: the error comes with the client as it is then.
\<close>

definition connect ::
  "codec \<Rightarrow> nat option \<Rightarrow> transport \<Rightarrow> string \<Rightarrow> string \<Rightarrow> client
    \<Rightarrow> (error \<times> client) + (client \<times> string list)" where
  "connect c opened tr now1 now2 s =
     (case opened of
        None \<Rightarrow> Inl (ConnectError, s\<lparr>is_connected := False\<rparr>)
      | Some h \<Rightarrow>
          (let s1 = s\<lparr>websocket := Some h\<rparr>;
               s2 = s1\<lparr>is_connected := True\<rparr>;
               s3 = s2\<lparr>stats := (stats s2)\<lparr>reconnections := reconnections (stats s2) + 1\<rparr>\<rparr>
           in Inr (send_handshake c tr now1 now2 s3)))"

text \<open>\<open>_handle_reconnect\<close>: the client and the seconds it sleeps.\<close>

definition handle_reconnect :: "client \<Rightarrow> client \<times> int" where
  "handle_reconnect s =
     (if int (reconnect_attempts s) < max_reconnect_attempts s then
        (let s1 = s\<lparr>reconnect_attempts := reconnect_attempts s + 1\<rparr>;
             delay = min (reconnect_delay s1 * 2 ^ (reconnect_attempts s1 - 1))
                         (max_reconnect_delay s1)
         in (s1, delay))
      else (s\<lparr>reconnect_attempts := 0\<rparr>, max_reconnect_delay s))"

text \<open>
  The \<open>except\<close> branch of \<open>_connection_manager\<close>, entered when \<open>_connect\<close> raises: the
  client is marked disconnected, and backs off if it is still running.
\<close>

definition connection_failed :: "client \<Rightarrow> client \<times> int" where
  "connection_failed s =
     (let s1 = s\<lparr>is_connected := False\<rparr>
      in if is_running s1 then handle_reconnect s1 else (s1, 0))"

text \<open>
  The \<open>try\<close> branch of \<open>_connection_manager\<close> after \<open>_connect\<close> has returned: a
  client that is connected has its attempts reset, and then listens.
\<close>

definition connection_opened :: "client \<Rightarrow> client" where
  "connection_opened s = (if is_connected s then s\<lparr>reconnect_attempts := 0\<rparr> else s)"

text \<open>\<open>n\<close> failures in a row: the delays slept, and the client afterwards.\<close>

fun backoff_delays :: "nat \<Rightarrow> client \<Rightarrow> int list" where
  "backoff_delays 0 s = []"
| "backoff_delays (Suc n) s =
     (let (s1, delay) = handle_reconnect s in delay # backoff_delays n s1)"

fun reconnects :: "nat \<Rightarrow> client \<Rightarrow> client" where
  "reconnects 0 s = s"
| "reconnects (Suc n) s = reconnects n (fst (handle_reconnect s))"

subsection \<open>Incoming messages\<close>

text \<open>
  \<open>_handle_config_update\<close>: the loop over \<open>config.items()\<close>. \<open>key in self.config\<close> is a
  lookup, and the assignment keeps the key where it is in the dictionary.
\<close>

fun handle_config_update :: "(string \<times> json) list \<Rightarrow> client \<Rightarrow> client" where
  "handle_config_update [] s = s"
| "handle_config_update ((key, val) # items) s =
     handle_config_update items
       (if map_of (config s) key \<noteq> None
        then s\<lparr>config := AList.update key val (config s)\<rparr>
        else s)"

text \<open>\<open>dict.get\<close> with a default.\<close>

definition get_default :: "(string \<times> json) list \<Rightarrow> string \<Rightarrow> json \<Rightarrow> json" where
  "get_default d k dflt = (case map_of d k of None \<Rightarrow> dflt | Some v \<Rightarrow> v)"

text \<open>
  \<open>_handle_command\<close>. \<open>command.get\<close> raises \<open>AttributeError\<close> on a value that is not a
  dictionary.
\<close>

definition handle_command :: "string \<Rightarrow> json \<Rightarrow> client \<Rightarrow> error + client" where
  "handle_command now command s =
     (case command of
        JDict d \<Rightarrow>
          (let cmd_type = get_default d ''type'' JNull
           in if cmd_type = JString ''get_status'' then Inr (send_system_status now s)
              else if cmd_type = JString ''restart'' then Inr s
              else Inr s)
      | _ \<Rightarrow> Inl AttributeError)"

text \<open>
  \<open>_handle_incoming_message\<close> on the value \<open>json.loads\<close> returned: the client and the
  frames written, or the exception a handler raised.
\<close>

definition handle_incoming_message ::
  "codec \<Rightarrow> transport \<Rightarrow> string \<Rightarrow> client \<Rightarrow> json \<Rightarrow> error + (client \<times> string list)" where
  "handle_incoming_message c tr now s data =
     (case data of
        JDict d \<Rightarrow>
          (let message_type = get_default d ''type'' (JString ''unknown'')
           in if message_type = JString ''ping'' then Inr (send_pong c tr now s)
              else if message_type = JString ''config_update'' then
                (case get_default d ''config'' (JDict []) of
                   JDict items \<Rightarrow> Inr (handle_config_update items s, [])
                 | _ \<Rightarrow> Inl AttributeError)
              else if message_type = JString ''command'' then
                (case handle_command now (get_default d ''command'' (JDict [])) s of
                   Inl e \<Rightarrow> Inl e
                 | Inr s1 \<Rightarrow> Inr (s1, []))
              else Inr (s, []))
      | _ \<Rightarrow> Inl AttributeError)"

text \<open>
  The body of the loop of \<open>_listen_for_messages\<close> for one frame. \<open>parsed\<close> is the result
  of \<open>json.loads\<close> on the frame, \<open>None\<close> when it raises \<open>JSONDecodeError\<close>. Both
  \<open>except\<close> branches log and go on: the client is as the handler left it when it
  raised, which is unchanged here, since every handler raises before it writes.
\<close>

definition listen_step ::
  "codec \<Rightarrow> transport \<Rightarrow> string \<Rightarrow> client \<Rightarrow> json option \<Rightarrow> client \<times> string list" where
  "listen_step c tr now s parsed =
     (case parsed of
        None \<Rightarrow> (s, [])
      | Some data \<Rightarrow>
          (case handle_incoming_message c tr now s data of
             Inl e \<Rightarrow> (s, [])
           | Inr r \<Rightarrow> r))"

text \<open>The end of \<open>_listen_for_messages\<close> by an exception: the client is disconnected.\<close>

definition connection_closed :: "client \<Rightarrow> client" where
  "connection_closed s = s\<lparr>is_connected := False\<rparr>"

subsection \<open>Start and stop\<close>

text \<open>
  \<open>start\<close> up to its \<open>await asyncio.sleep(2)\<close>: the three tasks are created. What it
  returns after the sleep is \<open>is_connected\<close> as the tasks have left it by then.
\<close>

definition start :: "client \<Rightarrow> client" where
  "start s =
     (if is_running s then s
      else s\<lparr>is_running := True,
             connection_task := Some Scheduled,
             send_task := Some Scheduled,
             heartbeat_task := Some Scheduled\<rparr>)"




subsection \<open>Runs of the client\<close>

text \<open>
  What happens to a client, one call after the other: the four public senders, a batch,
  a heartbeat, a ping answered, a round of the connection manager up to its listening
  (the connection is opened, or fails to open, which ends in the backoff), and a
  connection lost.
\<close>

datatype event =
    PortfolioData string json
  | TradeSignal string json
  | RiskAlert string json
  | SystemStatus string
  | Batch transport string "DashboardMessage list"
  | Heartbeat transport string int int string
  | Ping transport string
  | Connect "nat option" transport string string
  | ConnectionLost

definition step :: "codec \<Rightarrow> event \<Rightarrow> client \<Rightarrow> client" where
  "step c e s =
     (case e of
        PortfolioData now d \<Rightarrow> send_portfolio_data now d s
      | TradeSignal now d \<Rightarrow> send_trade_signal now d s
      | RiskAlert now d \<Rightarrow> send_risk_alert now d s
      | SystemStatus now \<Rightarrow> send_system_status now s
      | Batch tr now messages \<Rightarrow> fst (snd (send_batch c tr now messages s))
      | Heartbeat tr now1 t1 t2 now2 \<Rightarrow> fst (snd (send_heartbeat c tr now1 t1 t2 now2 s))
      | Ping tr now \<Rightarrow> fst (send_pong c tr now s)
      | Connect opened tr now1 now2 \<Rightarrow>
          (case connect c opened tr now1 now2 s of
             Inl (e, s1) \<Rightarrow> fst (connection_failed s1)
           | Inr (s1, frames) \<Rightarrow> connection_opened s1)
      | ConnectionLost \<Rightarrow> connection_closed s)"


fun run :: "codec \<Rightarrow> event list \<Rightarrow> client \<Rightarrow> client" where
  "run c [] s = s"
| "run c (e # es) s = run c es (step c e s)"





subsection \<open>Clients for the examples\<close>

text \<open>
  A stand-in for the library where an example needs one; no result below depends on
  what the library computes.
\<close>

definition example_codec :: codec where
  "example_codec = \<lparr>dumps = (\<lambda>v. ''{}''), gzip_b64 = (\<lambda>t. ''H4sIAA=='')\<rparr>"

text \<open>A client that was started and has opened a connection.\<close>

definition connected_client :: client where
  "connected_client =
     run example_codec [Connect (Some 1) Delivers ''09:00:00'' ''09:00:00''] (start new_client)"

text \<open>The connected client with 25 envelopes waiting, and the default batch size 10.\<close>

definition backlog_client :: client where
  "backlog_client =
     run example_codec (replicate 25 (PortfolioData ''09:00:01'' (JDict []))) connected_client"

text \<open>
  A client configured with \<open>batch_size\<close> 0, started and connected, with one envelope
  waiting.
\<close>

definition zero_batch_client :: client where
  "zero_batch_client =
     (case init [(''dashboard_url'', JString ''ws://localhost:8080/ws/trading''),
                 (''batch_size'', JInt 0)] of
        Inr s \<Rightarrow>
          run example_codec
            [Connect (Some 1) Delivers ''09:00:00'' ''09:00:00'',
             PortfolioData ''09:00:01'' (JDict [])]
            (start s))"

text \<open>An envelope with a nested payload.\<close>

definition example_envelope :: DashboardMessage where
  "example_envelope =
     \<lparr>msg_type = ''portfolio_update'', msg_timestamp = ''09:00:01'',
      msg_data = JDict [(''positions'', JList [JDict [(''symbol'', JString ''BTC''),
                                                      (''quantity'', JInt 2)]])],
      msg_system_id = ''nexus_ai_local'', msg_sequence_id = 1\<rparr>"

section \<open>Properties\<close>

subsection \<open>The example clients, evaluated\<close>

lemma new_client_eq:
  "new_client =
     \<lparr>config = [(''dashboard_url'', JString ''ws://localhost:8080/ws/trading'')],
      websocket = None, is_connected = False, is_running = False,
      reconnect_attempts = 0, max_reconnect_attempts = 10, reconnect_delay = 5,
      max_reconnect_delay = 300, sequence_id = 0,
      dashboard_url = ''ws://localhost:8080/ws/trading'', api_key = [],
      system_id = ''nexus_ai_local'', compress_data = True, batch_size = 10,
      send_interval = 2, message_queue = [], send_task = None, heartbeat_task = None,
      connection_task = None, stats = init_stats\<rparr>"
  by (simp add: new_client_def init_def get_int_def get_bool_def get_str_def)

lemma connected_client_eq:
  "connected_client =
     \<lparr>config = [(''dashboard_url'', JString ''ws://localhost:8080/ws/trading'')],
      websocket = Some 1, is_connected = True, is_running = True,
      reconnect_attempts = 0, max_reconnect_attempts = 10, reconnect_delay = 5,
      max_reconnect_delay = 300, sequence_id = 0,
      dashboard_url = ''ws://localhost:8080/ws/trading'', api_key = [],
      system_id = ''nexus_ai_local'', compress_data = True, batch_size = 10,
      send_interval = 2, message_queue = [], send_task = Some Scheduled,
      heartbeat_task = Some Scheduled, connection_task = Some Scheduled,
      stats = \<lparr>messages_sent = 1, messages_failed = 0, bytes_sent = 2,
        connection_uptime = 0, last_heartbeat = None, reconnections = 1,
        start_time = None\<rparr>\<rparr>"
  by (simp add: connected_client_def step_def connect_def connection_opened_def
        send_handshake_def send_raw_message_def final_message_def example_codec_def
        start_def new_client_eq init_stats_def Let_def)

subsection \<open>What a call does to the counter and to the queue\<close>

lemma send_raw_message_sequence_id:
  "sequence_id (fst (snd (send_raw_message c tr s m))) = sequence_id s"
  by (simp add: send_raw_message_def Let_def split: transport.splits)

lemma send_raw_message_queue:
  "message_queue (fst (snd (send_raw_message c tr s m))) = message_queue s"
  by (simp add: send_raw_message_def Let_def split: transport.splits)

lemma queued_message_id:
  "msg_sequence_id (fst (queued_message ty now d s)) = sequence_id s + 1"
  "sequence_id (snd (queued_message ty now d s)) = sequence_id s + 1"
  by (simp_all add: queued_message_def get_next_sequence_id_def Let_def)





lemma collect_take_drop: "collect n q acc = (acc @ take n q, drop n q)"
  by (induction n q acc rule: collect.induct) simp_all

lemma send_batch_queue:
  "message_queue (fst (snd (send_batch c tr now ms s))) = message_queue s"
  by (simp add: send_batch_def batch_message_def queued_message_def get_next_sequence_id_def
        Let_def send_raw_message_queue)

lemma send_worker_cycle_queue:
  "is_connected s \<Longrightarrow>
   message_queue (fst (send_worker_cycle c tr now s)) = drop (nat (batch_size s)) (message_queue s)"
  by (cases "message_queue s = []")
     (simp_all add: send_worker_cycle_def collect_take_drop Let_def split_beta
        send_raw_message_queue send_batch_queue)

subsection \<open>Sequence ids\<close>











subsection \<open>Backoff\<close>

lemma handle_reconnect_below:
  "int (reconnect_attempts s) < max_reconnect_attempts s \<Longrightarrow>
   handle_reconnect s =
     (s\<lparr>reconnect_attempts := reconnect_attempts s + 1\<rparr>,
      min (reconnect_delay s * 2 ^ reconnect_attempts s) (max_reconnect_delay s))"
  by (simp add: handle_reconnect_def Let_def)

lemma handle_reconnect_exhausted:
  "\<not> int (reconnect_attempts s) < max_reconnect_attempts s \<Longrightarrow>
   handle_reconnect s = (s\<lparr>reconnect_attempts := 0\<rparr>, max_reconnect_delay s)"
  by (simp add: handle_reconnect_def)

lemma backoff_5_300:
  "min ((5::int) * 2 ^ n) 300 = (if n < 6 then [5, 10, 20, 40, 80, 160] ! n else 300)"
proof (cases "n < 6")
  case True
  then consider "n = 0" | "n = 1" | "n = 2" | "n = 3" | "n = 4" | "n = 5" by linarith
  then show ?thesis by cases simp_all
next
  case False
  then have "(2::int) ^ 6 \<le> 2 ^ n" by (intro power_increasing) simp_all
  with False show ?thesis by simp
qed

lemma backoff_delays_below:
  "int (reconnect_attempts s) + int k \<le> max_reconnect_attempts s \<Longrightarrow>
   backoff_delays k s
     = map (\<lambda>a. min (reconnect_delay s * 2 ^ (a - 1)) (max_reconnect_delay s))
         [Suc (reconnect_attempts s)..<Suc (reconnect_attempts s + k)]"
proof (induction k arbitrary: s)
  case 0
  show ?case by simp
next
  case (Suc k)
  let ?s1 = "s\<lparr>reconnect_attempts := reconnect_attempts s + 1\<rparr>"
  from Suc.prems have below: "int (reconnect_attempts s) < max_reconnect_attempts s" by simp
  from Suc.prems have "int (reconnect_attempts ?s1) + int k \<le> max_reconnect_attempts ?s1"
    by simp
  from Suc.IH [OF this] handle_reconnect_below [OF below]
  show ?case by (simp add: upt_conv_Cons del: upt_Suc)
qed


lemma reconnects_below:
  "int (reconnect_attempts s) + int k \<le> max_reconnect_attempts s \<Longrightarrow>
   reconnects k s = s\<lparr>reconnect_attempts := reconnect_attempts s + k\<rparr>"
proof (induction k arbitrary: s)
  case 0
  show ?case by simp
next
  case (Suc k)
  let ?s1 = "s\<lparr>reconnect_attempts := reconnect_attempts s + 1\<rparr>"
  from Suc.prems have below: "int (reconnect_attempts s) < max_reconnect_attempts s" by simp
  from Suc.prems have "int (reconnect_attempts ?s1) + int k \<le> max_reconnect_attempts ?s1"
    by simp
  from Suc.IH [OF this] handle_reconnect_below [OF below]
  show ?case by simp
qed

lemma backoff_delays_append:
  "backoff_delays (k + j) s = backoff_delays k s @ backoff_delays j (reconnects k s)"
  by (induction k arbitrary: s) (simp_all add: split_beta)

lemma backoff_cycle:
  assumes zero: "reconnect_attempts s = 0" and budget: "max_reconnect_attempts s = int m"
  shows "backoff_delays (Suc m) s
           = map (\<lambda>a. min (reconnect_delay s * 2 ^ (a - 1)) (max_reconnect_delay s)) [Suc 0..<Suc m]
             @ [max_reconnect_delay s]"
    and "reconnects (Suc m) s = s"
proof -
  from zero budget have fits: "int (reconnect_attempts s) + int m \<le> max_reconnect_attempts s"
    by simp
  let ?sm = "s\<lparr>reconnect_attempts := reconnect_attempts s + m\<rparr>"
  have sm: "reconnects m s = ?sm" by (rule reconnects_below [OF fits])
  from zero budget have spent: "\<not> int (reconnect_attempts ?sm) < max_reconnect_attempts ?sm"
    by simp
  have last: "handle_reconnect ?sm = (?sm\<lparr>reconnect_attempts := 0\<rparr>, max_reconnect_delay ?sm)"
    by (rule handle_reconnect_exhausted [OF spent])
  have "backoff_delays (m + 1) s = backoff_delays m s @ backoff_delays 1 (reconnects m s)"
    by (rule backoff_delays_append)
  with backoff_delays_below [OF fits] sm last zero
  show "backoff_delays (Suc m) s
           = map (\<lambda>a. min (reconnect_delay s * 2 ^ (a - 1)) (max_reconnect_delay s)) [Suc 0..<Suc m]
             @ [max_reconnect_delay s]"
    by simp
  have "reconnects (m + 1) s = reconnects 1 (reconnects m s)"
    by (induction m arbitrary: s) simp_all
  with sm last zero show "reconnects (Suc m) s = s" by simp
qed

text \<open>
  Claim C3. \<open>_handle_reconnect\<close>: while the attempt counter is below
  \<open>max_reconnect_attempts\<close>, the counter is incremented first and the wait is
  \<open>min(reconnect_delay * 2^(attempt - 1), max_reconnect_delay)\<close> with the new counter;
  for a base of 5 and a maximum of 300 that is 5, 10, 20, 40, 80, 160 for the attempts
  1 to 6 and 300 from then on. Once the budget is spent, the wait is
  \<open>max_reconnect_delay\<close> once and the counter goes back to 0. So a client that begins
  with the counter at 0 and keeps failing is, after one more failure than its budget,
  exactly the client it was: the same cycle of waits follows, without end.
\<close>

theorem handle_reconnect_backoff:
  "(int (reconnect_attempts s) < max_reconnect_attempts s \<longrightarrow>
      reconnect_attempts (fst (handle_reconnect s)) = reconnect_attempts s + 1
      \<and> snd (handle_reconnect s)
          = min (reconnect_delay s * 2 ^ (reconnect_attempts (fst (handle_reconnect s)) - 1))
                (max_reconnect_delay s)
      \<and> (reconnect_delay s = 5 \<and> max_reconnect_delay s = 300 \<longrightarrow>
           snd (handle_reconnect s)
             = (if reconnect_attempts s < 6 then [5, 10, 20, 40, 80, 160] ! reconnect_attempts s
                else 300)))
   \<and> (\<not> int (reconnect_attempts s) < max_reconnect_attempts s \<longrightarrow>
        handle_reconnect s = (s\<lparr>reconnect_attempts := 0\<rparr>, max_reconnect_delay s))
   \<and> (reconnect_attempts s = 0 \<and> max_reconnect_attempts s = int m \<longrightarrow>
        backoff_delays (Suc m) s
          = map (\<lambda>a. min (reconnect_delay s * 2 ^ (a - 1)) (max_reconnect_delay s)) [Suc 0..<Suc m]
            @ [max_reconnect_delay s]
        \<and> reconnects (Suc m) s = s)"
proof (intro conjI impI)
  assume below: "int (reconnect_attempts s) < max_reconnect_attempts s"
  note hr = handle_reconnect_below [OF below]
  show "reconnect_attempts (fst (handle_reconnect s)) = reconnect_attempts s + 1"
    by (simp add: hr)
  show "snd (handle_reconnect s)
          = min (reconnect_delay s * 2 ^ (reconnect_attempts (fst (handle_reconnect s)) - 1))
                (max_reconnect_delay s)"
    by (simp add: hr)
  assume "reconnect_delay s = 5 \<and> max_reconnect_delay s = 300"
  then show "snd (handle_reconnect s)
             = (if reconnect_attempts s < 6 then [5, 10, 20, 40, 80, 160] ! reconnect_attempts s
                else 300)"
    by (simp only: hr snd_conv backoff_5_300)
next
  assume "\<not> int (reconnect_attempts s) < max_reconnect_attempts s"
  then show "handle_reconnect s = (s\<lparr>reconnect_attempts := 0\<rparr>, max_reconnect_delay s)"
    by (rule handle_reconnect_exhausted)
next
  assume a: "reconnect_attempts s = 0 \<and> max_reconnect_attempts s = int m"
  then show "backoff_delays (Suc m) s
          = map (\<lambda>a. min (reconnect_delay s * 2 ^ (a - 1)) (max_reconnect_delay s)) [Suc 0..<Suc m]
            @ [max_reconnect_delay s]"
    by (intro backoff_cycle) simp_all
  from a show "reconnects (Suc m) s = s"
    by (intro backoff_cycle) simp_all
qed

text \<open>
  The defaults (10 attempts, 5 and 300 seconds): eleven failures in a row, and the
  client is as it was before the first.
\<close>

theorem handle_reconnect_backoff_witness:
  "reconnect_attempts new_client = 0 \<and> max_reconnect_attempts new_client = int 10
   \<and> reconnect_delay new_client = 5 \<and> max_reconnect_delay new_client = 300
   \<and> backoff_delays 11 new_client = [5, 10, 20, 40, 80, 160, 300, 300, 300, 300, 300]
   \<and> reconnects 11 new_client = new_client
   \<and> handle_reconnect new_client = (new_client\<lparr>reconnect_attempts := 1\<rparr>, 5)
   \<and> handle_reconnect (new_client\<lparr>reconnect_attempts := 10\<rparr>)
        = (new_client\<lparr>reconnect_attempts := 0\<rparr>, 300)"
proof -
  have facts: "reconnect_attempts new_client = 0" "max_reconnect_attempts new_client = int 10"
    "reconnect_delay new_client = 5" "max_reconnect_delay new_client = 300"
    by (simp_all add: new_client_eq)
  have eleven: "Suc 10 = 11" by simp
  have delays: "map (\<lambda>a. min (5 * 2 ^ (a - Suc 0)) (300::int)) [Suc 0..<11]
                 = [5, 10, 20, 40, 80, 160, 300, 300, 300, 300]"
    by (simp add: upt_rec)
  from handle_reconnect_backoff [of new_client 10] facts
  have "backoff_delays (Suc 10) new_client
          = map (\<lambda>a. min (5 * 2 ^ (a - 1)) 300) [Suc 0..<Suc 10] @ [300]"
    and "reconnects (Suc 10) new_client = new_client"
    and "snd (handle_reconnect new_client) = 5"
    and "reconnect_attempts (fst (handle_reconnect new_client)) = 1"
    by simp_all
  moreover have "handle_reconnect new_client = (new_client\<lparr>reconnect_attempts := 1\<rparr>, 5)"
    by (simp add: handle_reconnect_def new_client_eq)
  moreover from handle_reconnect_backoff [of "new_client\<lparr>reconnect_attempts := 10\<rparr>" 10] facts
  have "handle_reconnect (new_client\<lparr>reconnect_attempts := 10\<rparr>)
        = (new_client\<lparr>reconnect_attempts := 0\<rparr>, 300)"
    by simp
  ultimately show ?thesis using facts by (simp add: eleven delays)
qed

subsection \<open>Writes that fail, and writes without a connection\<close>

text \<open>
  Claim C6. When \<open>_send_raw_message\<close> is called on a connected client and the write
  raises, \<open>messages_failed\<close> goes up by exactly one, \<open>is_connected\<close> becomes false, the
  call returns \<open>False\<close>, nothing else of the client changes, and the envelope is not put
  on the queue. In the send worker, the envelopes taken off the queue for the failed
  write stay off it.
\<close>

theorem send_failure_not_requeued:
  assumes conn: "is_connected s" and sock: "websocket s \<noteq> None"
  shows "send_raw_message c Raises s message
           = (False,
              s\<lparr>stats := (stats s)\<lparr>messages_failed := messages_failed (stats s) + 1\<rparr>,
                is_connected := False\<rparr>,
              [])
         \<and> message_queue (fst (snd (send_raw_message c Raises s message))) = message_queue s
         \<and> message_queue (fst (send_worker_cycle c Raises now s))
             = drop (nat (batch_size s)) (message_queue s)
         \<and> fst (snd (send_worker_cycle c Raises now s)) = []"
proof -
  have raised: "send_raw_message c Raises s message
           = (False,
              s\<lparr>stats := (stats s)\<lparr>messages_failed := messages_failed (stats s) + 1\<rparr>,
                is_connected := False\<rparr>,
              [])"
    using conn sock by (auto simp: send_raw_message_def Let_def)
  have no_frame: "snd (snd (send_raw_message c Raises s1 m)) = []" for s1 m
    by (simp add: send_raw_message_def Let_def)
  have "fst (snd (send_worker_cycle c Raises now s)) = []"
    by (simp add: send_worker_cycle_def collect_take_drop Let_def split_beta
          send_batch_def no_frame)
  with raised send_raw_message_queue [of c Raises s message]
    send_worker_cycle_queue [OF conn, of c Raises now]
  show ?thesis by simp
qed

text \<open>
  The connected client with one envelope queued: the failed write of the worker leaves
  the queue empty, one failure counted and the client disconnected.
\<close>

theorem send_failure_not_requeued_witness:
  "is_connected (send_portfolio_data ''09:00:01'' (JDict []) connected_client)
   \<and> websocket (send_portfolio_data ''09:00:01'' (JDict []) connected_client) \<noteq> None
   \<and> message_queue (fst (send_worker_cycle example_codec Raises ''09:00:02''
        (send_portfolio_data ''09:00:01'' (JDict []) connected_client))) = []
   \<and> messages_failed (stats (fst (snd (send_raw_message example_codec Raises
        (send_portfolio_data ''09:00:01'' (JDict []) connected_client)
        (pong_message ''09:00:02'' connected_client))))) = 1
   \<and> \<not> is_connected (fst (snd (send_raw_message example_codec Raises
        (send_portfolio_data ''09:00:01'' (JDict []) connected_client)
        (pong_message ''09:00:02'' connected_client))))"
proof -
  let ?s = "send_portfolio_data ''09:00:01'' (JDict []) connected_client"
  have conn: "is_connected ?s" and sock: "websocket ?s \<noteq> None"
    and q: "length (message_queue ?s) = 1" and b: "batch_size ?s = 10"
    and f: "messages_failed (stats ?s) = 0"
    by (simp_all add: send_portfolio_data_def queued_message_def get_next_sequence_id_def
          put_def connected_client_eq Let_def)
  from send_failure_not_requeued [OF conn sock, of example_codec
         "pong_message ''09:00:02'' connected_client" "''09:00:02''"] conn sock q b f
  show ?thesis by simp
qed

text \<open>
  Claim C10. When \<open>_send_raw_message\<close> is called while \<open>is_connected\<close> is false or no
  handle is held, it returns \<open>False\<close>, writes nothing and leaves the client, with every
  statistics counter, as it was. So a pong produced then is dropped with no trace, and
  a heartbeat produced then writes nothing and leaves the statistics unchanged.
\<close>

theorem send_raw_message_disconnected:
  "\<not> is_connected s \<or> websocket s = None \<Longrightarrow>
   send_raw_message c tr s message = (False, s, [])
   \<and> send_pong c tr now s = (s, [])
   \<and> stats (fst (snd (send_heartbeat c tr now1 t1 t2 now2 s))) = stats s
   \<and> snd (snd (send_heartbeat c tr now1 t1 t2 now2 s)) = []"
  by (auto simp: send_raw_message_def send_pong_def send_heartbeat_def heartbeat_message_def
       queued_message_def get_next_sequence_id_def Let_def)

theorem send_raw_message_disconnected_witness:
  "\<not> is_connected new_client
   \<and> send_raw_message example_codec Delivers new_client (pong_message ''09:00:00'' new_client)
       = (False, new_client, [])
   \<and> send_pong example_codec Delivers ''09:00:00'' new_client = (new_client, [])"
  using send_raw_message_disconnected [of new_client example_codec Delivers
          "pong_message ''09:00:00'' new_client" "''09:00:00''"]
  by (simp add: new_client_eq)

subsection \<open>Heartbeat, handshake and the counter\<close>

text \<open>
  Claim C2, as stated, fails for the heartbeat: \<open>send_heartbeat\<close> builds its envelope
  with \<open>_get_next_sequence_id()\<close>. On the connected client, whose counter is 0, the
  heartbeat carries the id 1 and leaves the counter at 1.
\<close>

theorem heartbeat_consumes_sequence_id:
  "\<not> (sequence_id (fst (snd (send_heartbeat example_codec Delivers ''09:00:30'' 1000 1000
          ''09:00:30'' connected_client))) = sequence_id connected_client)
   \<and> msg_sequence_id (fst (heartbeat_message ''09:00:30'' 1000 1000 ''09:00:30'' connected_client)) = 1"
  by (simp add: send_heartbeat_def heartbeat_message_def split_beta queued_message_id
        send_raw_message_sequence_id connected_client_eq)

text \<open>
  Claim C2, amended. The handshake and the pong bypass the counter: their envelopes carry
  the sequence id 0 and the counter is as it was after the call. A heartbeat takes the
  next id from the counter the queued and batched sends use: its envelope carries the
  counter plus one, and the counter is one higher after the call, whether or not the
  write succeeds.
\<close>

theorem handshake_bypasses_counter:
  "sequence_id (fst (send_handshake c tr now1 now2 s)) = sequence_id s
   \<and> msg_sequence_id (handshake_message now1 now2 s) = 0
   \<and> sequence_id (fst (send_pong c tr now s)) = sequence_id s
   \<and> msg_sequence_id (pong_message now s) = 0
   \<and> sequence_id (fst (snd (send_heartbeat c tr now1 t1 t2 now2 s))) = sequence_id s + 1
   \<and> msg_sequence_id (fst (heartbeat_message now1 t1 t2 now2 s)) = sequence_id s + 1"
  by (simp add: send_handshake_def send_pong_def send_heartbeat_def heartbeat_message_def
        handshake_message_def pong_message_def split_beta queued_message_id
        send_raw_message_sequence_id)

theorem handshake_bypasses_counter_witness:
  "sequence_id (fst (send_handshake example_codec Delivers ''09:00:00'' ''09:00:00'' connected_client)) = 0
   \<and> sequence_id (fst (snd (send_heartbeat example_codec Delivers ''09:00:30'' 1000 1000
          ''09:00:30'' connected_client))) = 1"
  using handshake_bypasses_counter [of example_codec Delivers "''09:00:00''" "''09:00:00''"
          connected_client]
        handshake_bypasses_counter [of example_codec Delivers "''09:00:30''" "''09:00:30''"
          connected_client _ 1000 1000]
  by (simp add: connected_client_eq)

text \<open>
  The key \<open>start_time\<close> of \<open>stats\<close>: no call stores it, so it is absent in every client
  that \<open>__init__\<close> built.
\<close>

lemma send_raw_message_start_time:
  "start_time (stats (fst (snd (send_raw_message c tr s m)))) = start_time (stats s)"
  by (simp add: send_raw_message_def Let_def split: transport.splits)

lemma queued_message_stats: "stats (snd (queued_message ty now d s)) = stats s"
  by (simp add: queued_message_def get_next_sequence_id_def Let_def)

lemma handle_reconnect_stats: "stats (fst (handle_reconnect s)) = stats s"
  by (simp add: handle_reconnect_def Let_def)

lemma step_start_time: "start_time (stats (step c e s)) = start_time (stats s)"
proof (cases e)
  case (Connect opened tr now1 now2)
  then show ?thesis
    by (cases opened)
       (simp_all add: step_def connect_def connection_failed_def connection_opened_def
          send_handshake_def handle_reconnect_stats send_raw_message_start_time
          Let_def split_beta)
qed (simp_all add: step_def send_portfolio_data_def send_trade_signal_def send_risk_alert_def
       send_system_status_def send_batch_def batch_message_def send_heartbeat_def
       heartbeat_message_def send_pong_def connection_closed_def put_def split_beta
       queued_message_stats send_raw_message_start_time)

lemma run_start_time: "start_time (stats (run c es s)) = start_time (stats s)"
  by (induction es arbitrary: s) (simp_all add: step_start_time)

text \<open>
  The heartbeat worker sleeps 30 seconds in every round, whatever \<open>send_interval\<close> is,
  and a heartbeat is written without touching the queue.
\<close>

lemma heartbeat_worker_cycle_period:
  "snd (snd (heartbeat_worker_cycle c tr now1 t1 t2 now2 now3 s)) = 30
   \<and> message_queue (fst (heartbeat_worker_cycle c tr now1 t1 t2 now2 now3 s)) = message_queue s
   \<and> message_queue (fst (snd (send_heartbeat c tr now1 t1 t2 now2 s))) = message_queue s"
  by (simp add: heartbeat_worker_cycle_def send_heartbeat_def heartbeat_message_def
        queued_message_def get_next_sequence_id_def split_beta Let_def send_raw_message_queue)

text \<open>
  Claim C9, on the uptime. In every client reached from a new one, the \<open>uptime\<close> of a
  heartbeat is the difference of the two readings of the clock taken while the payload
  is built, the first minus the second, and not the time since the process started.
  The payload carries the length of the queue as \<open>queue_size\<close>.
\<close>

theorem heartbeat_uptime_is_clock_difference:
  "msg_data (fst (heartbeat_message now1 t1 t2 now2 (run c es (start new_client))))
     = JDict [(''timestamp'', JString now1),
              (''uptime'', JInt (t1 - t2)),
              (''queue_size'', JInt (int (length (message_queue (run c es (start new_client))))))]"
proof -
  have "start_time (stats (run c es (start new_client))) = None"
    by (simp add: run_start_time start_def new_client_eq init_stats_def)
  then show ?thesis
    by (simp add: heartbeat_message_def queued_message_def get_next_sequence_id_def
          heartbeat_data_def Let_def)
qed

text \<open>A heartbeat on the connected client, both readings of the clock at 1000: uptime 0.\<close>

theorem heartbeat_uptime_is_clock_difference_witness:
  "msg_data (fst (heartbeat_message ''09:16:40'' 1000 1000 ''09:16:40'' connected_client))
     = JDict [(''timestamp'', JString ''09:16:40''), (''uptime'', JInt 0), (''queue_size'', JInt 0)]"
proof -
  have q: "message_queue connected_client = []" by (simp add: connected_client_eq)
  from heartbeat_uptime_is_clock_difference [of "''09:16:40''" 1000 1000 "''09:16:40''"
          example_codec "[Connect (Some 1) Delivers ''09:00:00'' ''09:00:00'']"]
  show ?thesis unfolding connected_client_def [symmetric] by (simp add: q)
qed

subsection \<open>Configuration updates\<close>

lemma handle_config_update_frame:
  "handle_config_update items s = s\<lparr>config := config (handle_config_update items s)\<rparr>"
proof (induction items s rule: handle_config_update.induct)
  case (1 s)
  show ?case by simp
next
  case (2 key val items s)
  let ?s1 = "if map_of (config s) key \<noteq> None
             then s\<lparr>config := AList.update key val (config s)\<rparr> else s"
  have "handle_config_update items ?s1 = ?s1\<lparr>config := config (handle_config_update items ?s1)\<rparr>"
    by (rule "2.IH")
  then have "handle_config_update items ?s1 = s\<lparr>config := config (handle_config_update items ?s1)\<rparr>"
    by (simp split: if_splits)
  then show ?case by simp
qed

lemma handle_config_update_lookup:
  "map_of (config (handle_config_update items s)) k
     = (case map_of (config s) k of
          None \<Rightarrow> None
        | Some v \<Rightarrow> (case map_of (rev items) k of None \<Rightarrow> Some v | Some v' \<Rightarrow> Some v'))"
proof (induction items arbitrary: s)
  case Nil
  show ?case by (simp split: option.splits)
next
  case (Cons item items)
  obtain key val where item: "item = (key, val)" by (cases item)
  show ?case
  proof (cases "map_of (config s) key")
    case None
    then have "handle_config_update (item # items) s = handle_config_update items s"
      by (simp add: item)
    with None Cons.IH [of s] show ?thesis
      by (auto simp: item map_add_def split: option.splits)
  next
    case (Some y)
    let ?s1 = "s\<lparr>config := AList.update key val (config s)\<rparr>"
    from Some have "handle_config_update (item # items) s = handle_config_update items ?s1"
      by (simp add: item)
    with Some Cons.IH [of ?s1] show ?thesis
      by (auto simp: item map_add_def update_conv' split: option.splits if_splits)
  qed
qed

lemma handle_config_update_keys:
  "map fst (config (handle_config_update items s)) = map fst (config s)"
proof (induction items arbitrary: s)
  case Nil
  show ?case by simp
next
  case (Cons item items)
  obtain key val where item: "item = (key, val)" by (cases item)
  show ?case
  proof (cases "map_of (config s) key")
    case None
    with Cons.IH [of s] show ?thesis by (simp add: item)
  next
    case (Some y)
    then have "key \<in> set (map fst (config s))"
      by (metis map_of_eq_None_iff option.distinct(1) set_map)
    then have "map fst (AList.update key val (config s)) = map fst (config s)"
      by (simp add: update_keys)
    with Some Cons.IH [of "s\<lparr>config := AList.update key val (config s)\<rparr>"]
    show ?thesis by (simp add: item)
  qed
qed

text \<open>
  Claim C8. After \<open>_handle_config_update\<close>, a key that was in the configuration has the
  value the update gives it, when the update names it (the last such value, should the
  list of items name a key twice; the items of a dictionary name it once), and its
  previous value otherwise; a key that was not in the configuration is still not in it;
  the keys are the same, in the same order; and nothing of the client but \<open>config\<close>
  changes. A \<open>config_update\<close> message is dispatched to it and writes nothing.
\<close>

theorem config_update_merges_known_keys:
  "map_of (config (handle_config_update items s)) k
     = (case map_of (config s) k of
          None \<Rightarrow> None
        | Some v \<Rightarrow> (case map_of (rev items) k of None \<Rightarrow> Some v | Some v' \<Rightarrow> Some v'))
   \<and> map fst (config (handle_config_update items s)) = map fst (config s)
   \<and> handle_config_update items s = s\<lparr>config := config (handle_config_update items s)\<rparr>
   \<and> handle_incoming_message c tr now s
        (JDict [(''type'', JString ''config_update''), (''config'', JDict items)])
       = Inr (handle_config_update items s, [])"
proof -
  have "handle_incoming_message c tr now s
        (JDict [(''type'', JString ''config_update''), (''config'', JDict items)])
       = Inr (handle_config_update items s, [])"
    by (simp add: handle_incoming_message_def get_default_def)
  with handle_config_update_lookup [of items s k] handle_config_update_keys [of items s]
    handle_config_update_frame [of items s]
  show ?thesis by simp
qed

text \<open>
  An update of \<open>batch_size\<close> and of the unknown key \<open>theme\<close>: \<open>batch_size\<close> is
  changed, \<open>theme\<close> is not added, \<open>send_interval\<close> is kept.
\<close>

theorem config_update_merges_known_keys_witness:
  "map_of (config (handle_config_update
      [(''batch_size'', JInt 20), (''theme'', JString ''dark'')]
      (new_client\<lparr>config := [(''dashboard_url'', JString ''ws://a''), (''batch_size'', JInt 10),
                                (''send_interval'', JInt 2)]\<rparr>))) ''batch_size'' = Some (JInt 20)
   \<and> map_of (config (handle_config_update
      [(''batch_size'', JInt 20), (''theme'', JString ''dark'')]
      (new_client\<lparr>config := [(''dashboard_url'', JString ''ws://a''), (''batch_size'', JInt 10),
                                (''send_interval'', JInt 2)]\<rparr>))) ''theme'' = None
   \<and> map_of (config (handle_config_update
      [(''batch_size'', JInt 20), (''theme'', JString ''dark'')]
      (new_client\<lparr>config := [(''dashboard_url'', JString ''ws://a''), (''batch_size'', JInt 10),
                                (''send_interval'', JInt 2)]\<rparr>))) ''send_interval'' = Some (JInt 2)"
proof -
  let ?s = "new_client\<lparr>config := [(''dashboard_url'', JString ''ws://a''),
              (''batch_size'', JInt 10), (''send_interval'', JInt 2)]\<rparr>"
  let ?items = "[(''batch_size'', JInt 20), (''theme'', JString ''dark'')]"
  note inst = config_update_merges_known_keys [of ?items ?s _ example_codec Delivers "''09:00:00''"]
  from inst [of "''batch_size''"] inst [of "''theme''"] inst [of "''send_interval''"]
  show ?thesis by simp
qed

subsection \<open>The send worker\<close>

lemma final_message_cong:
  "compress_data s' = compress_data s \<Longrightarrow> final_message c s' m = final_message c s m"
  by (simp add: final_message_def wire_object_def)

lemma send_raw_message_delivers:
  "is_connected s \<Longrightarrow> websocket s \<noteq> None \<Longrightarrow>
   snd (snd (send_raw_message c Delivers s m)) = [final_message c s m]
   \<and> fst (send_raw_message c Delivers s m) = True"
  by (auto simp: send_raw_message_def Let_def)
lemma run_portfolio_backlog:
  "is_connected (run c (replicate k (PortfolioData now d)) s) = is_connected s
   \<and> websocket (run c (replicate k (PortfolioData now d)) s) = websocket s
   \<and> batch_size (run c (replicate k (PortfolioData now d)) s) = batch_size s
   \<and> sequence_id (run c (replicate k (PortfolioData now d)) s) = sequence_id s + int k
   \<and> length (message_queue (run c (replicate k (PortfolioData now d)) s))
        = length (message_queue s) + k"
proof (induction k arbitrary: s)
  case 0
  show ?case by simp
next
  case (Suc k)
  let ?s1 = "step c (PortfolioData now d) s"
  have "is_connected ?s1 = is_connected s" "websocket ?s1 = websocket s"
    "batch_size ?s1 = batch_size s" "sequence_id ?s1 = sequence_id s + 1"
    "length (message_queue ?s1) = length (message_queue s) + 1"
    by (simp_all add: step_def send_portfolio_data_def queued_message_def
          get_next_sequence_id_def put_def Let_def)
  with Suc.IH [of ?s1] show ?case by simp
qed

lemma zero_batch_client_eq:
  "is_connected zero_batch_client" "websocket zero_batch_client = Some 1"
  "length (message_queue zero_batch_client) = 1" "batch_size zero_batch_client = 0"
  "send_interval zero_batch_client = 2" "sequence_id zero_batch_client = 1"
  by (simp_all add: zero_batch_client_def init_def get_int_def get_bool_def get_str_def
        step_def connect_def connection_opened_def send_handshake_def send_raw_message_def
        start_def
        send_portfolio_data_def queued_message_def get_next_sequence_id_def put_def Let_def)

text \<open>
  Claim C4, as stated, fails when \<open>batch_size\<close> is not positive: \<open>range(batch_size)\<close>
  is empty, nothing is taken off the queue, and the guard \<open>if messages:\<close> skips the
  send. The client with \<open>batch_size\<close> 0 is connected and has one envelope waiting; the
  round writes no frame, builds no batch envelope and leaves the client as it was.
\<close>

theorem zero_batch_size_sends_nothing:
  "is_connected zero_batch_client \<and> length (message_queue zero_batch_client) = 1
   \<and> send_worker_cycle example_codec Delivers ''09:00:02'' zero_batch_client
       = (zero_batch_client, [], 2)"
proof -
  have "message_queue zero_batch_client \<noteq> []"
    using zero_batch_client_eq(3) by auto
  then show ?thesis
    by (simp add: send_worker_cycle_def zero_batch_client_eq)
qed

text \<open>
  Claim C4, amended. In a round of the send worker with the client connected and the
  queue not empty, the envelopes taken off the queue are its first
  \<open>min(batch_size, length of the queue)\<close>, in the order they were put, and the others
  stay queued in their order. If \<open>batch_size\<close> is 0 or less, none is taken, nothing is
  written and the client is unchanged. If exactly one was taken, it is written by
  itself, and the counter is left alone. If two or more were taken, one envelope of type
  \<open>batch\<close> is written whose payload is the list of their dictionaries in that order and
  whose sequence id is the next of the counter. (The frames are those of a write that
  succeeds; claim C6 has the write that raises.)
\<close>

theorem send_worker_cycle_batches:
  assumes conn: "is_connected s" and sock: "websocket s \<noteq> None"
    and q: "message_queue s \<noteq> []"
  shows "message_queue (fst (send_worker_cycle c Delivers now s))
           = drop (nat (batch_size s)) (message_queue s)
     \<and> length (message_queue s) - length (message_queue (fst (send_worker_cycle c Delivers now s)))
           = min (nat (batch_size s)) (length (message_queue s))
     \<and> (batch_size s \<le> 0 \<longrightarrow> send_worker_cycle c Delivers now s = (s, [], send_interval s))
     \<and> (length (take (nat (batch_size s)) (message_queue s)) = 1 \<longrightarrow>
          fst (snd (send_worker_cycle c Delivers now s)) = [final_message c s (hd (message_queue s))]
          \<and> sequence_id (fst (send_worker_cycle c Delivers now s)) = sequence_id s)
     \<and> (2 \<le> length (take (nat (batch_size s)) (message_queue s)) \<longrightarrow>
          fst (snd (send_worker_cycle c Delivers now s))
            = [final_message c s
                 \<lparr>msg_type = ''batch'', msg_timestamp = now,
                  msg_data = JDict [(''messages'',
                    JList (map asdict (take (nat (batch_size s)) (message_queue s))))],
                  msg_system_id = system_id s, msg_sequence_id = sequence_id s + 1\<rparr>]
          \<and> sequence_id (fst (send_worker_cycle c Delivers now s)) = sequence_id s + 1)"
proof (intro conjI impI)
  let ?n = "nat (batch_size s)"
  let ?ms = "take ?n (message_queue s)"
  let ?s1 = "s\<lparr>message_queue := drop ?n (message_queue s)\<rparr>"
  have conn1: "is_connected ?s1" and sock1: "websocket ?s1 \<noteq> None"
    using conn sock by simp_all
  show "message_queue (fst (send_worker_cycle c Delivers now s)) = drop ?n (message_queue s)"
    by (rule send_worker_cycle_queue [OF conn])
  then show "length (message_queue s) - length (message_queue (fst (send_worker_cycle c Delivers now s)))
           = min (nat (batch_size s)) (length (message_queue s))"
    by simp
  {
    assume "batch_size s \<le> 0"
    then show "send_worker_cycle c Delivers now s = (s, [], send_interval s)"
      using conn q by (simp add: send_worker_cycle_def collect_take_drop)
  }
  {
    assume one: "length ?ms = 1"
    then have ne: "?ms \<noteq> []" by auto
    from one q have hd_eq: "hd ?ms = hd (message_queue s)"
      by (cases "message_queue s") (auto split: if_splits simp: take_Cons')
    have cyc: "send_worker_cycle c Delivers now s =
        (let (ok, s2, frames) = send_raw_message c Delivers ?s1 (hd ?ms)
         in (s2, frames, send_interval s2))"
      using conn q one ne by (simp add: send_worker_cycle_def collect_take_drop Let_def)
    from send_raw_message_delivers [OF conn1 sock1, of c "hd ?ms"]
    show "fst (snd (send_worker_cycle c Delivers now s)) = [final_message c s (hd (message_queue s))]"
      by (simp add: cyc split_beta hd_eq final_message_cong [of ?s1 s])
    show "sequence_id (fst (send_worker_cycle c Delivers now s)) = sequence_id s"
      by (simp add: cyc split_beta send_raw_message_sequence_id)
  }
  {
    assume many: "2 \<le> length ?ms"
    then have ne: "?ms \<noteq> []" and not_one: "length ?ms \<noteq> 1" by auto
    have cyc: "send_worker_cycle c Delivers now s =
        (let (ok, s2, frames) = send_batch c Delivers now ?ms ?s1
         in (s2, frames, send_interval s2))"
      using conn q ne not_one
      by (simp add: send_worker_cycle_def collect_take_drop Let_def)
    let ?b = "\<lparr>msg_type = ''batch'', msg_timestamp = now,
                  msg_data = JDict [(''messages'', JList (map asdict ?ms))],
                  msg_system_id = system_id s, msg_sequence_id = sequence_id s + 1\<rparr>"
    let ?s2 = "?s1\<lparr>sequence_id := sequence_id s + 1\<rparr>"
    have bm: "batch_message now ?ms ?s1 = (?b, ?s2)"
      by (simp add: batch_message_def queued_message_def get_next_sequence_id_def Let_def)
    have conn2: "is_connected ?s2" and sock2: "websocket ?s2 \<noteq> None"
      using conn sock by simp_all
    have sb: "send_batch c Delivers now ?ms ?s1 = send_raw_message c Delivers ?s2 ?b"
      by (simp add: send_batch_def bm)
    from send_raw_message_delivers [OF conn2 sock2, of c ?b]
    show "fst (snd (send_worker_cycle c Delivers now s)) = [final_message c s ?b]"
      by (simp add: cyc sb split_beta final_message_cong [of ?s2 s])
    show "sequence_id (fst (send_worker_cycle c Delivers now s)) = sequence_id s + 1"
      by (simp add: cyc sb split_beta send_raw_message_sequence_id)
  }
qed

text \<open>25 envelopes queued and \<open>batch_size\<close> 10: one frame is written, 15 stay queued.\<close>

theorem send_worker_cycle_batches_witness:
  "is_connected backlog_client \<and> length (message_queue backlog_client) = 25
   \<and> batch_size backlog_client = 10
   \<and> length (message_queue (fst (send_worker_cycle example_codec Delivers ''09:00:03''
        backlog_client))) = 15
   \<and> length (fst (snd (send_worker_cycle example_codec Delivers ''09:00:03'' backlog_client))) = 1
   \<and> sequence_id (fst (send_worker_cycle example_codec Delivers ''09:00:03'' backlog_client)) = 26"
proof -
  from run_portfolio_backlog [of example_codec 25 "''09:00:01''" "JDict []" connected_client]
  have conn: "is_connected backlog_client" and sock: "websocket backlog_client \<noteq> None"
    and b: "batch_size backlog_client = 10" and sid: "sequence_id backlog_client = 25"
    and len: "length (message_queue backlog_client) = 25"
    by (simp_all add: backlog_client_def connected_client_eq)
  from len have q: "message_queue backlog_client \<noteq> []" by auto
  from send_worker_cycle_batches [OF conn sock q, of example_codec "''09:00:03''"] conn b sid len
  show ?thesis by simp
qed

subsection \<open>The compressed form and the reader\<close>

lemma marker_object_ignored:
  "listen_step c tr now s (Some (JDict [(''compressed'', JBool True), (''data'', JString t)]))
     = (s, [])"
  by (simp add: listen_step_def handle_incoming_message_def get_default_def)

text \<open>
  Claim C5, as stated, fails: the reader has no check for the marker. With compression
  on, what the client writes for an envelope is the marker object, which is not the
  envelope's dictionary, and when the read loop is given a frame of that form it finds
  no key \<open>type\<close>, takes the branch for unknown types, and recovers nothing.
\<close>

theorem compressed_frame_is_not_decoded:
  "compress_data connected_client
   \<and> wire_object example_codec connected_client example_envelope \<noteq> asdict example_envelope
   \<and> listen_step example_codec Delivers ''09:00:02'' connected_client
        (Some (wire_object example_codec connected_client example_envelope))
       = (connected_client, [])"
  by (simp add: wire_object_def asdict_def marker_object_ignored connected_client_eq)

text \<open>
  Claim C5, amended. With \<open>compress_data\<close> set, \<open>_send_raw_message\<close> writes the JSON
  text of the marker object \<open>{compressed: true, data: d}\<close>, where \<open>d\<close> is the base64
  text of the gzip of the JSON text of the envelope. The client has no decoder of this
  form: the read loop dispatches the parsed frame on its key \<open>type\<close> without looking
  for the marker, so a frame in the compressed form is handled as a message of unknown
  type, which writes nothing and leaves the client unchanged.
\<close>

theorem compressed_frame_marker:
  "compress_data s \<Longrightarrow>
   wire_object c s m
     = JDict [(''compressed'', JBool True), (''data'', JString (gzip_b64 c (dumps c (asdict m))))]
   \<and> final_message c s m
     = dumps c (JDict [(''compressed'', JBool True),
                        (''data'', JString (gzip_b64 c (dumps c (asdict m))))])
   \<and> wire_object c s m \<noteq> asdict m
   \<and> listen_step c' tr now s' (Some (wire_object c s m)) = (s', [])"
  by (simp add: final_message_def wire_object_def asdict_def marker_object_ignored)

theorem compressed_frame_marker_witness:
  "compress_data connected_client
   \<and> wire_object example_codec connected_client example_envelope
     = JDict [(''compressed'', JBool True), (''data'', JString ''H4sIAA=='')]"
proof -
  have on: "compress_data connected_client" by (simp add: connected_client_eq)
  from compressed_frame_marker [OF on, of example_codec example_envelope] on
  show ?thesis by (simp add: example_codec_def)
qed

subsection \<open>Stop\<close>










end
